theory Spec2Isabelle
  imports Main "HOL-Library.Word"
begin

section \<open>The AccessibilityUI contract\<close>

text \<open>
  A shallow embedding of the Solidity contract \<^verbatim>\<open>AccessibilityUI\<close> and of the index
  maintenance of the web frontend (\<^verbatim>\<open>App.tsx\<close>). Storage is a record that every public
  function takes and returns; a failed \<^verbatim>\<open>require\<close> or a reverting library call is the
  left summand of the result.
\<close>

subsection \<open>Value types\<close>

type_synonym address = "160 word"
type_synonym uint256 = "256 word"
type_synonym uint32 = "32 word"
type_synonym bytes = "8 word list"

subsection \<open>The encrypted-integer library\<close>

text \<open>
  Modelled from the spec: the library \<^verbatim>\<open>@fhevm/solidity/lib/FHE.sol\<close> is imported by the
  contract and is not part of the repository. It is modelled as the stub backend of the
  spec, sections 8 and 9, whose operations are transparent to the plaintext: a handle is
  either the zero handle of fresh storage, which \<^verbatim>\<open>FHE.isInitialized\<close> rejects, or it carries
  the 32-bit value it encrypts. Arithmetic is that of unsigned 32-bit integers, so
  addition and subtraction wrap around. An operand that is the zero handle counts as an
  encryption of 0, and every operation returns an initialized handle.
\<close>

datatype euint32 = Uninitialized | Enc uint32

fun cleartext :: "euint32 \<Rightarrow> uint32" where
  "cleartext Uninitialized = 0"
| "cleartext (Enc v) = v"

fun FHE_isInitialized :: "euint32 \<Rightarrow> bool" where
  "FHE_isInitialized Uninitialized = False"
| "FHE_isInitialized (Enc v) = True"

definition FHE_asEuint32 :: "uint32 \<Rightarrow> euint32" where
  "FHE_asEuint32 v = Enc v"

definition FHE_add :: "euint32 \<Rightarrow> euint32 \<Rightarrow> euint32" where
  "FHE_add a b = Enc (cleartext a + cleartext b)"

definition FHE_sub :: "euint32 \<Rightarrow> euint32 \<Rightarrow> euint32" where
  "FHE_sub a b = Enc (cleartext a - cleartext b)"

text \<open>
  The contract divides by the encrypted constants 10, 5 and 2 only; a zero divisor never
  reaches \<open>FHE_div\<close>, and the quotient HOL gives there (0) is used by no theorem below.
\<close>

definition FHE_div :: "euint32 \<Rightarrow> euint32 \<Rightarrow> euint32" where
  "FHE_div a b = Enc (cleartext a div cleartext b)"

subsection \<open>Storage\<close>

record EncryptedPreferences =
  visionSettings :: euint32
  hearingSettings :: euint32
  mobilitySettings :: euint32
  cognitiveSettings :: euint32
  lastUpdated :: uint256

record UIAdjustment =
  fontSize :: euint32
  contrastRatio :: euint32
  volumeLevel :: euint32
  animationSpeed :: euint32
  lastCalculated :: uint256

datatype event =
    PreferencesUpdated address uint256
  | UIAdjusted address uint256
  | AdjustmentCalculated address uint256

text \<open>
  Besides the three storage variables of the contract, the state keeps the log of emitted
  events and the ciphertext lists handed to \<^verbatim>\<open>FHE.requestDecryption\<close>, oldest first.
\<close>

record contract_state =
  userPreferences :: "address \<Rightarrow> EncryptedPreferences"
  uiAdjustments :: "address \<Rightarrow> UIAdjustment"
  defaultAdjustment :: UIAdjustment
  events :: "event list"
  decryptionRequests :: "euint32 list list"

text \<open>The value of a mapping entry that was never written, or was deleted: all zero.\<close>

definition zeroPreferences :: EncryptedPreferences where
  "zeroPreferences =
     \<lparr>visionSettings = Uninitialized, hearingSettings = Uninitialized,
      mobilitySettings = Uninitialized, cognitiveSettings = Uninitialized,
      lastUpdated = 0\<rparr>"

definition zeroAdjustment :: UIAdjustment where
  "zeroAdjustment =
     \<lparr>fontSize = Uninitialized, contrastRatio = Uninitialized,
      volumeLevel = Uninitialized, animationSpeed = Uninitialized,
      lastCalculated = 0\<rparr>"

definition freshStorage :: contract_state where
  "freshStorage =
     \<lparr>userPreferences = (\<lambda>_. zeroPreferences),
      uiAdjustments = (\<lambda>_. zeroAdjustment),
      defaultAdjustment = zeroAdjustment,
      events = [],
      decryptionRequests = []\<rparr>"

datatype error =
    PreconditionFailed string
  | InvalidProof
  | Malformed

subsection \<open>The functions of the contract\<close>

text \<open>
  Every function takes \<^verbatim>\<open>msg.sender\<close> and \<^verbatim>\<open>block.timestamp\<close> first. \<open>PreconditionFailed\<close>
  carries the message of the \<^verbatim>\<open>require\<close> that failed.
\<close>

definition constructor :: "uint256 \<Rightarrow> contract_state" where
  "constructor block_timestamp =
     freshStorage\<lparr>defaultAdjustment :=
       \<lparr>fontSize = FHE_asEuint32 16,
        contrastRatio = FHE_asEuint32 4,
        volumeLevel = FHE_asEuint32 50,
        animationSpeed = FHE_asEuint32 3,
        lastCalculated = block_timestamp\<rparr>\<rparr>"

definition updatePreferences ::
  "address \<Rightarrow> uint256 \<Rightarrow> euint32 \<Rightarrow> euint32 \<Rightarrow> euint32 \<Rightarrow> euint32 \<Rightarrow>
   contract_state \<Rightarrow> error + contract_state" where
  "updatePreferences msg_sender block_timestamp vision hearing mobility cognitive s =
     Inr (s\<lparr>userPreferences := (userPreferences s)(msg_sender :=
              \<lparr>visionSettings = vision,
               hearingSettings = hearing,
               mobilitySettings = mobility,
               cognitiveSettings = cognitive,
               lastUpdated = block_timestamp\<rparr>),
            events := events s @ [PreferencesUpdated msg_sender block_timestamp]\<rparr>)"

definition calculateAdjustments ::
  "address \<Rightarrow> uint256 \<Rightarrow> contract_state \<Rightarrow> error + contract_state" where
  "calculateAdjustments msg_sender block_timestamp s =
     (let prefs = userPreferences s msg_sender in
      if \<not> FHE_isInitialized (visionSettings prefs)
      then Inl (PreconditionFailed ''Preferences not set'')
      else
        let newFontSize = FHE_add (fontSize (defaultAdjustment s))
              (FHE_div (visionSettings prefs) (FHE_asEuint32 10));
            newContrastRatio = FHE_add (contrastRatio (defaultAdjustment s))
              (FHE_div (visionSettings prefs) (FHE_asEuint32 5));
            newVolumeLevel = FHE_add (volumeLevel (defaultAdjustment s))
              (FHE_div (hearingSettings prefs) (FHE_asEuint32 2));
            newAnimationSpeed = FHE_sub (animationSpeed (defaultAdjustment s))
              (FHE_div (cognitiveSettings prefs) (FHE_asEuint32 10))
        in Inr (s\<lparr>uiAdjustments := (uiAdjustments s)(msg_sender :=
                   \<lparr>fontSize = newFontSize,
                    contrastRatio = newContrastRatio,
                    volumeLevel = newVolumeLevel,
                    animationSpeed = newAnimationSpeed,
                    lastCalculated = block_timestamp\<rparr>),
                 events := events s @ [AdjustmentCalculated msg_sender block_timestamp]\<rparr>))"

definition applyUIAdjustments ::
  "address \<Rightarrow> uint256 \<Rightarrow> contract_state \<Rightarrow> error + contract_state" where
  "applyUIAdjustments msg_sender block_timestamp s =
     (let adjustment = uiAdjustments s msg_sender in
      if \<not> FHE_isInitialized (fontSize adjustment)
      then Inl (PreconditionFailed ''Adjustments not calculated'')
      else Inr (s\<lparr>events := events s @ [UIAdjusted msg_sender block_timestamp]\<rparr>))"

definition requestAdjustmentDecryption ::
  "address \<Rightarrow> uint256 \<Rightarrow> contract_state \<Rightarrow> error + contract_state" where
  "requestAdjustmentDecryption msg_sender block_timestamp s =
     (let adjustment = uiAdjustments s msg_sender in
      if \<not> FHE_isInitialized (fontSize adjustment)
      then Inl (PreconditionFailed ''Adjustments not calculated'')
      else
        let ciphertexts = [fontSize adjustment, contrastRatio adjustment,
                           volumeLevel adjustment, animationSpeed adjustment]
        in Inr (s\<lparr>decryptionRequests := decryptionRequests s @ [ciphertexts]\<rparr>))"

text \<open>
  \<^verbatim>\<open>abi.decode(cleartexts, (uint32, uint32, uint32, uint32))\<close>: four 32-byte big-endian
  slots. Solidity 0.8 reverts when the data is shorter than 128 bytes or when a slot holds
  a value that does not fit 32 bits; bytes after the fourth slot are ignored.
\<close>

definition be_value :: "bytes \<Rightarrow> nat" where
  "be_value bs = foldl (\<lambda>acc b. 256 * acc + unat b) 0 bs"

definition abi_slot_uint32 :: "bytes \<Rightarrow> nat \<Rightarrow> uint32 option" where
  "abi_slot_uint32 bs i =
     (let v = be_value (take 32 (drop (32 * i) bs))
      in if v < 2 ^ 32 then Some (word_of_nat v) else None)"

definition abi_decode_uint32x4 :: "bytes \<Rightarrow> (uint32 \<times> uint32 \<times> uint32 \<times> uint32) option" where
  "abi_decode_uint32x4 bs =
     (if length bs < 128 then None
      else case abi_slot_uint32 bs 0 of None \<Rightarrow> None | Some a \<Rightarrow>
           (case abi_slot_uint32 bs 1 of None \<Rightarrow> None | Some b \<Rightarrow>
           (case abi_slot_uint32 bs 2 of None \<Rightarrow> None | Some c \<Rightarrow>
           (case abi_slot_uint32 bs 3 of None \<Rightarrow> None | Some d \<Rightarrow> Some (a, b, c, d)))))"

text \<open>
  \<^verbatim>\<open>FHE.checkSignatures\<close> belongs to the imported library. It is the parameter
  \<open>checkSignatures\<close>: given the ciphertext lists requested so far, the request id, the
  cleartexts and the proof, it says whether the proof verifies; the library reverts when
  it does not.
\<close>

type_synonym verifier = "euint32 list list \<Rightarrow> uint256 \<Rightarrow> bytes \<Rightarrow> bytes \<Rightarrow> bool"

definition handleDecryptedAdjustments ::
  "verifier \<Rightarrow> address \<Rightarrow> uint256 \<Rightarrow> uint256 \<Rightarrow> bytes \<Rightarrow> bytes \<Rightarrow>
   contract_state \<Rightarrow> error + contract_state" where
  "handleDecryptedAdjustments checkSignatures msg_sender block_timestamp requestId cleartexts proof s =
     (if \<not> checkSignatures (decryptionRequests s) requestId cleartexts proof
      then Inl InvalidProof
      else case abi_decode_uint32x4 cleartexts of
             None \<Rightarrow> Inl Malformed
           | Some (newFontSize, newContrastRatio, newVolumeLevel, newAnimationSpeed) \<Rightarrow>
               Inr (s\<lparr>events := events s @ [UIAdjusted msg_sender block_timestamp]\<rparr>))"

definition getAdjustments ::
  "contract_state \<Rightarrow> address \<Rightarrow> euint32 \<times> euint32 \<times> euint32 \<times> euint32 \<times> uint256" where
  "getAdjustments s user =
     (let adjustment = uiAdjustments s user in
      (fontSize adjustment, contrastRatio adjustment, volumeLevel adjustment,
       animationSpeed adjustment, lastCalculated adjustment))"

definition resetPreferences ::
  "address \<Rightarrow> uint256 \<Rightarrow> contract_state \<Rightarrow> error + contract_state" where
  "resetPreferences msg_sender block_timestamp s =
     Inr (s\<lparr>userPreferences := (userPreferences s)(msg_sender := zeroPreferences),
            uiAdjustments := (uiAdjustments s)(msg_sender := zeroAdjustment),
            events := events s @ [PreferencesUpdated msg_sender block_timestamp]\<rparr>)"

subsection \<open>Transactions\<close>

datatype call =
    UpdatePreferences euint32 euint32 euint32 euint32
  | CalculateAdjustments
  | ApplyUIAdjustments
  | RequestAdjustmentDecryption
  | HandleDecryptedAdjustments uint256 bytes bytes
  | ResetPreferences

type_synonym transaction = "address \<times> uint256 \<times> call"

fun exec :: "verifier \<Rightarrow> transaction \<Rightarrow> contract_state \<Rightarrow> error + contract_state" where
  "exec chk (sender, now, UpdatePreferences v h m c) s = updatePreferences sender now v h m c s"
| "exec chk (sender, now, CalculateAdjustments) s = calculateAdjustments sender now s"
| "exec chk (sender, now, ApplyUIAdjustments) s = applyUIAdjustments sender now s"
| "exec chk (sender, now, RequestAdjustmentDecryption) s = requestAdjustmentDecryption sender now s"
| "exec chk (sender, now, HandleDecryptedAdjustments rid clear dproof) s =
     handleDecryptedAdjustments chk sender now rid clear dproof s"
| "exec chk (sender, now, ResetPreferences) s = resetPreferences sender now s"

text \<open>A transaction that reverts leaves the state as it was.\<close>

definition transact :: "verifier \<Rightarrow> transaction \<Rightarrow> contract_state \<Rightarrow> contract_state" where
  "transact chk tx s = (case exec chk tx s of Inl e \<Rightarrow> s | Inr s' \<Rightarrow> s')"

fun run :: "verifier \<Rightarrow> transaction list \<Rightarrow> contract_state \<Rightarrow> contract_state" where
  "run chk [] s = s"
| "run chk (tx # txs) s = run chk txs (transact chk tx s)"

text \<open>
  The contract's own tests for the presence of a record: the conditions of its
  \<^verbatim>\<open>require\<close> statements.
\<close>

definition hasPreferences :: "contract_state \<Rightarrow> address \<Rightarrow> bool" where
  "hasPreferences s owner = FHE_isInitialized (visionSettings (userPreferences s owner))"

definition hasAdjustments :: "contract_state \<Rightarrow> address \<Rightarrow> bool" where
  "hasAdjustments s owner = FHE_isInitialized (fontSize (uiAdjustments s owner))"

text \<open>
  The invariant of the adjustment record, for one owner: adjustments are present only if
  preferences are.
\<close>

definition recordInvariant :: "contract_state \<Rightarrow> address \<Rightarrow> bool" where
  "recordInvariant s owner = (hasAdjustments s owner \<longrightarrow> hasPreferences s owner)"

text \<open>
  What a history of transactions says about one owner: \<open>submittedSinceReset\<close> holds when
  the owner has called \<^verbatim>\<open>updatePreferences\<close> and has not called \<^verbatim>\<open>resetPreferences\<close>
  since; \<open>neverCalculated\<close> holds when the owner has not called
  \<^verbatim>\<open>calculateAdjustments\<close> at all.
\<close>

definition nextSubmitted :: "address \<Rightarrow> address \<Rightarrow> call \<Rightarrow> bool \<Rightarrow> bool" where
  "nextSubmitted owner sender c b =
     (if sender = owner
      then (case c of UpdatePreferences v h m cg \<Rightarrow> True | ResetPreferences \<Rightarrow> False | _ \<Rightarrow> b)
      else b)"

fun submittedAfter :: "address \<Rightarrow> bool \<Rightarrow> transaction list \<Rightarrow> bool" where
  "submittedAfter owner b [] = b"
| "submittedAfter owner b ((sender, now, c) # txs) =
     submittedAfter owner (nextSubmitted owner sender c b) txs"

definition submittedSinceReset :: "address \<Rightarrow> transaction list \<Rightarrow> bool" where
  "submittedSinceReset owner txs = submittedAfter owner False txs"

fun neverCalculated :: "address \<Rightarrow> transaction list \<Rightarrow> bool" where
  "neverCalculated user [] = True"
| "neverCalculated user ((sender, now, c) # txs) =
     (\<not> (sender = user \<and> c = CalculateAdjustments) \<and> neverCalculated user txs)"

text \<open>
  A verifier for the concrete scenarios: a proof verifies exactly when it is the single
  byte 1.
\<close>

definition testVerifier :: verifier where
  "testVerifier requested requestId cleartexts proof = (proof = [1])"

text \<open>
  The one kind of call that can leave adjustments behind without preferences: an
  \<^verbatim>\<open>updatePreferences\<close> whose vision argument is the zero handle.
\<close>

fun nullVisionUpdate :: "call \<Rightarrow> bool" where
  "nullVisionUpdate (UpdatePreferences v h m cg) = (\<not> FHE_isInitialized v)"
| "nullVisionUpdate c = False"

text \<open>
  Data of the concrete scenarios. \<open>scenarioState\<close>: the contract is deployed at time 1;
  account 5 submits vision 40, hearing 60, mobility 0, cognitive 30, has its adjustments
  calculated and requests their decryption. \<open>payloadA\<close> is the ABI encoding of
  (20, 12, 80, 0), \<open>payloadB\<close> that of (1, 2, 3, 4).
\<close>

definition scenarioState :: contract_state where
  "scenarioState =
     run testVerifier
       [(5, 100, UpdatePreferences (Enc 40) (Enc 60) (Enc 0) (Enc 30)),
        (5, 200, CalculateAdjustments),
        (5, 300, RequestAdjustmentDecryption)]
       (constructor 1)"

definition payloadA :: bytes where
  "payloadA = replicate 31 0 @ [20] @ replicate 31 0 @ [12] @ replicate 31 0 @ [80] @
              replicate 32 0"

definition payloadB :: bytes where
  "payloadB = replicate 31 0 @ [1] @ replicate 31 0 @ [2] @ replicate 31 0 @ [3] @
              replicate 31 0 @ [4]"

subsection \<open>The key index of the frontend\<close>

text \<open>
  \<^verbatim>\<open>submitPreference\<close> and \<^verbatim>\<open>loadPreferences\<close> of \<^verbatim>\<open>App.tsx\<close> read the blob stored under
  \<^verbatim>\<open>"preference_keys"\<close> and parse it. \<open>jsonParse\<close> stands for
  \<^verbatim>\<open>JSON.parse(ethers.toUtf8String(keysBytes))\<close>, with \<open>None\<close> when it throws: the exception
  is caught and logged, and \<^verbatim>\<open>keys\<close> stays the empty array. What it returns is whatever
  JSON value the blob holds; \<open>JOther\<close> stands for the values that are neither a string nor
  an array (null, a boolean, a number, an object).
\<close>

datatype json = JString string | JArray "json list" | JOther

datatype js_error = TypeError

definition indexKeys :: "(bytes \<Rightarrow> json option) \<Rightarrow> bytes \<Rightarrow> json" where
  "indexKeys jsonParse keysBytes =
     (if length keysBytes > 0
      then (case jsonParse keysBytes of Some keys \<Rightarrow> keys | None \<Rightarrow> JArray [])
      else JArray [])"

text \<open>
  \<^verbatim>\<open>keys.push(prefId)\<close>: the array that \<^verbatim>\<open>submitPreference\<close> stores back. Only an array
  has \<^verbatim>\<open>push\<close>; on any other value the call throws a TypeError, which ends the submission.
\<close>

definition pushKey :: "(bytes \<Rightarrow> json option) \<Rightarrow> bytes \<Rightarrow> string \<Rightarrow> js_error + json list" where
  "pushKey jsonParse keysBytes prefId =
     (case indexKeys jsonParse keysBytes of
        JArray keys \<Rightarrow> Inr (keys @ [JString prefId])
      | _ \<Rightarrow> Inl TypeError)"

text \<open>
  An index blob for the concrete scenarios: the bytes of \<^verbatim>\<open>["k1"]\<close>, and a parser that
  knows this one blob.
\<close>

definition indexBlob :: bytes where
  "indexBlob = [0x5B, 0x22, 0x6B, 0x31, 0x22, 0x5D]"

definition blobParse :: "bytes \<Rightarrow> json option" where
  "blobParse bs = (if bs = indexBlob then Some (JArray [JString ''k1'']) else None)"

section \<open>Properties\<close>

subsection \<open>Facts shared by the proofs\<close>

lemmas op_defs = updatePreferences_def calculateAdjustments_def applyUIAdjustments_def
  requestAdjustmentDecryption_def handleDecryptedAdjustments_def resetPreferences_def

lemma defaultAdjustment_transact:
  "defaultAdjustment (transact chk tx s) = defaultAdjustment s"
proof -
  obtain sender now c where tx: "tx = (sender, now, c)"
    by (cases tx) auto
  show ?thesis
    unfolding tx transact_def
    by (cases c) (simp_all add: op_defs Let_def split: option.splits prod.splits)
qed

lemma defaultAdjustment_run:
  "defaultAdjustment (run chk txs s) = defaultAdjustment s"
  by (induction txs arbitrary: s) (simp_all add: defaultAdjustment_transact)

lemma defaultAdjustment_reachable:
  "defaultAdjustment (run chk txs (constructor t0)) =
     \<lparr>fontSize = Enc 16, contrastRatio = Enc 4, volumeLevel = Enc 50,
      animationSpeed = Enc 3, lastCalculated = t0\<rparr>"
  by (simp add: defaultAdjustment_run constructor_def FHE_asEuint32_def)

lemma calculateAdjustments_result:
  assumes d: "defaultAdjustment s =
      \<lparr>fontSize = Enc 16, contrastRatio = Enc 4, volumeLevel = Enc 50,
       animationSpeed = Enc 3, lastCalculated = t0\<rparr>"
    and prefs: "hasPreferences s owner"
  shows "calculateAdjustments owner now s =
     Inr (s\<lparr>uiAdjustments := (uiAdjustments s)(owner :=
            \<lparr>fontSize = Enc (16 + cleartext (visionSettings (userPreferences s owner)) div 10),
             contrastRatio = Enc (4 + cleartext (visionSettings (userPreferences s owner)) div 5),
             volumeLevel = Enc (50 + cleartext (hearingSettings (userPreferences s owner)) div 2),
             animationSpeed = Enc (3 - cleartext (cognitiveSettings (userPreferences s owner)) div 10),
             lastCalculated = now\<rparr>),
          events := events s @ [AdjustmentCalculated owner now]\<rparr>)"
  using prefs
  by (simp add: calculateAdjustments_def hasPreferences_def d
      FHE_add_def FHE_sub_def FHE_div_def FHE_asEuint32_def Let_def)

lemma unat_bound32: "unat (v::32 word) < 4294967296"
  using unsigned_less [of v, where 'a = nat] by simp

lemma unat_fontSize: "unat (16 + (v::32 word) div 10) = 16 + unat v div 10"
proof -
  have "16 + unat v div 10 < 4294967296"
    using unat_bound32 [of v] by simp
  then show ?thesis
    by (simp add: unat_word_ariths unat_div)
qed

lemma unat_contrastRatio: "unat (4 + (v::32 word) div 5) = 4 + unat v div 5"
proof -
  have "4 + unat v div 5 < 4294967296"
    using unat_bound32 [of v] by simp
  then show ?thesis
    by (simp add: unat_word_ariths unat_div)
qed

lemma unat_volumeLevel: "unat (50 + (h::32 word) div 2) = 50 + unat h div 2"
proof -
  have "50 + unat h div 2 < 4294967296"
    using unat_bound32 [of h] by simp
  then show ?thesis
    by (simp add: unat_word_ariths unat_div)
qed


lemma hasPreferences_transact:
  "hasPreferences (transact chk (sender, now, c) s) owner =
     (if sender = owner
      then (case c of UpdatePreferences v h m cg \<Rightarrow> FHE_isInitialized v
             | ResetPreferences \<Rightarrow> False
             | _ \<Rightarrow> hasPreferences s owner)
      else hasPreferences s owner)"
  by (cases c)
     (simp_all add: transact_def op_defs hasPreferences_def zeroPreferences_def Let_def
        split: option.splits prod.splits)

lemma submittedAfter_Cons:
  "submittedAfter owner b ((sender, now, c) # txs) =
     submittedAfter owner (nextSubmitted owner sender c b) txs"
  by simp

lemma submittedAfter_mono:
  "(b \<longrightarrow> b') \<Longrightarrow> submittedAfter owner b txs \<Longrightarrow> submittedAfter owner b' txs"
proof (induction txs arbitrary: b b')
  case Nil
  then show ?case by simp
next
  case (Cons tx txs)
  obtain sender now c where tx: "tx = (sender, now, c)"
    by (cases tx) auto
  have step: "nextSubmitted owner sender c b \<longrightarrow> nextSubmitted owner sender c b'"
    using Cons.prems(1) by (cases c) (simp_all add: nextSubmitted_def)
  from Cons.prems(2) have "submittedAfter owner (nextSubmitted owner sender c b) txs"
    by (simp only: tx submittedAfter_Cons)
  with step have "submittedAfter owner (nextSubmitted owner sender c b') txs"
    by (rule Cons.IH)
  then show ?case
    by (simp only: tx submittedAfter_Cons)
qed

lemma hasPreferences_run:
  "hasPreferences (run chk txs s) owner \<Longrightarrow> submittedAfter owner (hasPreferences s owner) txs"
proof (induction txs arbitrary: s)
  case Nil
  then show ?case by simp
next
  case (Cons tx txs)
  obtain sender now c where tx: "tx = (sender, now, c)"
    by (cases tx) auto
  have step: "hasPreferences (transact chk tx s) owner \<longrightarrow>
      nextSubmitted owner sender c (hasPreferences s owner)"
    unfolding tx by (cases c) (simp_all add: hasPreferences_transact nextSubmitted_def)
  from Cons.prems have "hasPreferences (run chk txs (transact chk tx s)) owner"
    by simp
  then have "submittedAfter owner (hasPreferences (transact chk tx s) owner) txs"
    by (rule Cons.IH)
  with step have "submittedAfter owner (nextSubmitted owner sender c (hasPreferences s owner)) txs"
    by (rule submittedAfter_mono)
  then show ?case
    by (simp only: tx submittedAfter_Cons)
qed

lemma hasPreferences_constructor: "\<not> hasPreferences (constructor t0) owner"
  by (simp add: hasPreferences_def constructor_def freshStorage_def zeroPreferences_def)

lemma calculateAdjustments_without_preferences:
  "\<not> hasPreferences s owner \<Longrightarrow>
     calculateAdjustments owner now s = Inl (PreconditionFailed ''Preferences not set'')"
  by (simp add: calculateAdjustments_def hasPreferences_def)

lemma be_value_pad: "be_value (replicate n 0 @ bs) = be_value bs"
  unfolding be_value_def by (induction n) simp_all

lemma be_value_single: "be_value [b] = unat b"
  by (simp add: be_value_def)

lemma be_value_zero: "be_value (replicate n 0) = 0"
  using be_value_pad [of n "[]"] by (simp add: be_value_def)

lemma decode_payloadA: "abi_decode_uint32x4 payloadA = Some (20, 12, 80, 0)"
  by (simp add: abi_decode_uint32x4_def abi_slot_uint32_def payloadA_def Let_def
      be_value_pad be_value_single be_value_zero)

lemma decode_payloadB: "abi_decode_uint32x4 payloadB = Some (1, 2, 3, 4)"
  by (simp add: abi_decode_uint32x4_def abi_slot_uint32_def payloadB_def Let_def
      be_value_pad be_value_single be_value_zero)

lemma scenarioState_eq: "scenarioState =
  \<lparr>userPreferences = (\<lambda>_. zeroPreferences)(5 := \<lparr>visionSettings = Enc 40, hearingSettings = Enc 60,
       mobilitySettings = Enc 0, cognitiveSettings = Enc 30, lastUpdated = 100\<rparr>),
   uiAdjustments = (\<lambda>_. zeroAdjustment)(5 := \<lparr>fontSize = Enc 20, contrastRatio = Enc 12,
       volumeLevel = Enc 80, animationSpeed = Enc 0, lastCalculated = 200\<rparr>),
   defaultAdjustment = \<lparr>fontSize = Enc 16, contrastRatio = Enc 4, volumeLevel = Enc 50,
       animationSpeed = Enc 3, lastCalculated = 1\<rparr>,
   events = [PreferencesUpdated 5 100, AdjustmentCalculated 5 200],
   decryptionRequests = [[Enc 20, Enc 12, Enc 80, Enc 0]]\<rparr>"
  by (simp add: scenarioState_def transact_def updatePreferences_def calculateAdjustments_def
      requestAdjustmentDecryption_def constructor_def freshStorage_def Let_def
      FHE_add_def FHE_sub_def FHE_div_def FHE_asEuint32_def)

lemma handleDecryptedAdjustments_cases:
  "handleDecryptedAdjustments chk sender now requestId cleartexts dproof s =
     (if \<not> chk (decryptionRequests s) requestId cleartexts dproof then Inl InvalidProof
      else if abi_decode_uint32x4 cleartexts = None then Inl Malformed
      else Inr (s\<lparr>events := events s @ [UIAdjusted sender now]\<rparr>))"
  by (simp add: handleDecryptedAdjustments_def split: option.splits prod.splits)

lemma hasAdjustments_transact:
  "hasAdjustments (transact chk (sender, now, c) s) owner =
     (if sender = owner
      then (case c of CalculateAdjustments \<Rightarrow> hasPreferences s owner \<or> hasAdjustments s owner
             | ResetPreferences \<Rightarrow> False
             | _ \<Rightarrow> hasAdjustments s owner)
      else hasAdjustments s owner)"
  by (cases c)
     (simp_all add: transact_def op_defs hasAdjustments_def hasPreferences_def
        zeroAdjustment_def FHE_add_def Let_def split: option.splits prod.splits)

lemma recordInvariant_transact:
  assumes "recordInvariant s owner"
  shows "recordInvariant (transact chk (sender, now, c) s) owner =
     (\<not> (nullVisionUpdate c \<and> sender = owner \<and> hasAdjustments s owner))"
  using assms
  by (cases c)
     (auto simp: recordInvariant_def hasPreferences_transact hasAdjustments_transact)

lemma recordInvariant_constructor: "recordInvariant (constructor t0) owner"
  by (simp add: recordInvariant_def hasAdjustments_def constructor_def freshStorage_def
      zeroAdjustment_def)

lemma recordInvariant_run:
  assumes "list_all (\<lambda>tx. \<not> nullVisionUpdate (snd (snd tx))) txs"
    and "recordInvariant s owner"
  shows "recordInvariant (run chk txs s) owner"
  using assms
proof (induction txs arbitrary: s)
  case Nil
  then show ?case by simp
next
  case (Cons tx txs)
  obtain sender now c where tx: "tx = (sender, now, c)"
    by (cases tx) auto
  from Cons.prems have "\<not> nullVisionUpdate c"
    by (simp add: tx)
  with Cons.prems(2) have "recordInvariant (transact chk tx s) owner"
    by (simp add: tx recordInvariant_transact)
  with Cons.prems(1) show ?case
    by (simp add: Cons.IH)
qed

lemma recordInvariant_scenarioState: "recordInvariant scenarioState owner"
  unfolding scenarioState_def
  by (rule recordInvariant_run) (simp_all add: recordInvariant_constructor)

lemma uiAdjustments_transact_other:
  "\<not> (sender = user \<and> c = CalculateAdjustments) \<Longrightarrow>
     uiAdjustments s user = zeroAdjustment \<Longrightarrow>
     uiAdjustments (transact chk (sender, now, c) s) user = zeroAdjustment"
  by (cases c)
     (auto simp: transact_def op_defs Let_def split: option.splits prod.splits)

lemma uiAdjustments_run_neverCalculated:
  "neverCalculated user txs \<Longrightarrow> uiAdjustments s user = zeroAdjustment \<Longrightarrow>
     uiAdjustments (run chk txs s) user = zeroAdjustment"
proof (induction txs arbitrary: s)
  case Nil
  then show ?case by simp
next
  case (Cons tx txs)
  obtain sender now c where tx: "tx = (sender, now, c)"
    by (cases tx) auto
  from Cons.prems have a: "\<not> (sender = user \<and> c = CalculateAdjustments)"
    and b: "neverCalculated user txs"
    by (simp_all add: tx)
  from a Cons.prems(2) have "uiAdjustments (transact chk tx s) user = zeroAdjustment"
    unfolding tx by (rule uiAdjustments_transact_other)
  with b show ?case
    by (simp add: Cons.IH)
qed

subsection \<open>The adjustment formulas\<close>

text \<open>
  Claim C1. In every state reached from deployment, for an owner whose preference record
  is present, \<^verbatim>\<open>calculateAdjustments\<close> succeeds and stores for the owner the record with
  fontSize = 16 + vision/10, contrastRatio = 4 + vision/5, volumeLevel = 50 + hearing/2
  and animationSpeed = 3 - cognitive/10, stamped with the block time, and emits
  AdjustmentCalculated. The values depend on the owner's current preferences and on the
  constants of the constructor only. The three sums never overflow 32 bits, so they are
  the sums of natural numbers; the difference is taken modulo \<open>2 ^ 32\<close>. The witness is
  the scenario of the spec: vision 40, hearing 60, mobility 0, cognitive 30 give 20, 12,
  80 and 0.
\<close>

theorem calculateAdjustments_formulas:
  assumes s: "s = run chk txs (constructor t0)"
    and prefs: "hasPreferences s owner"
    and v: "v = cleartext (visionSettings (userPreferences s owner))"
    and h: "h = cleartext (hearingSettings (userPreferences s owner))"
    and c: "c = cleartext (cognitiveSettings (userPreferences s owner))"
  shows "calculateAdjustments owner now s =
     Inr (s\<lparr>uiAdjustments := (uiAdjustments s)(owner :=
            \<lparr>fontSize = Enc (16 + v div 10),
             contrastRatio = Enc (4 + v div 5),
             volumeLevel = Enc (50 + h div 2),
             animationSpeed = Enc (3 - c div 10),
             lastCalculated = now\<rparr>),
          events := events s @ [AdjustmentCalculated owner now]\<rparr>) \<and>
     unat (16 + v div 10) = 16 + unat v div 10 \<and>
     unat (4 + v div 5) = 4 + unat v div 5 \<and>
     unat (50 + h div 2) = 50 + unat h div 2 \<and>
     uint (3 - c div 10) = (3 - uint c div 10) mod 2 ^ 32"
proof (intro conjI)
  have "defaultAdjustment s =
      \<lparr>fontSize = Enc 16, contrastRatio = Enc 4, volumeLevel = Enc 50,
       animationSpeed = Enc 3, lastCalculated = t0\<rparr>"
    unfolding s by (rule defaultAdjustment_reachable)
  from calculateAdjustments_result [OF this prefs, of now]
  show "calculateAdjustments owner now s =
     Inr (s\<lparr>uiAdjustments := (uiAdjustments s)(owner :=
            \<lparr>fontSize = Enc (16 + v div 10),
             contrastRatio = Enc (4 + v div 5),
             volumeLevel = Enc (50 + h div 2),
             animationSpeed = Enc (3 - c div 10),
             lastCalculated = now\<rparr>),
          events := events s @ [AdjustmentCalculated owner now]\<rparr>)"
    by (simp only: v h c)
next
  show "unat (16 + v div 10) = 16 + unat v div 10"
    by (rule unat_fontSize)
next
  show "unat (4 + v div 5) = 4 + unat v div 5"
    by (rule unat_contrastRatio)
next
  show "unat (50 + h div 2) = 50 + unat h div 2"
    by (rule unat_volumeLevel)
next
  show "uint (3 - c div 10) = (3 - uint c div 10) mod 2 ^ 32"
    by (simp add: uint_word_ariths uint_div)
qed

theorem calculateAdjustments_formulas_witness:
  "getAdjustments
     (transact testVerifier (5, 200, CalculateAdjustments)
        (run testVerifier [(5, 100, UpdatePreferences (Enc 40) (Enc 60) (Enc 0) (Enc 30))]
           (constructor 1))) 5
   = (Enc 20, Enc 12, Enc 80, Enc 0, 200)"
proof -
  define s0 where
    "s0 = run testVerifier [(5, 100, UpdatePreferences (Enc 40) (Enc 60) (Enc 0) (Enc 30))]
            (constructor 1)"
  have prefs: "userPreferences s0 5 =
      \<lparr>visionSettings = Enc 40, hearingSettings = Enc 60, mobilitySettings = Enc 0,
       cognitiveSettings = Enc 30, lastUpdated = 100\<rparr>"
    by (simp add: s0_def transact_def updatePreferences_def)
  have has: "hasPreferences s0 5"
    by (simp add: hasPreferences_def prefs)
  from calculateAdjustments_formulas [OF s0_def has refl refl refl, of 200]
  have "calculateAdjustments 5 200 s0 =
     Inr (s0\<lparr>uiAdjustments := (uiAdjustments s0)(5 :=
            \<lparr>fontSize = Enc 20, contrastRatio = Enc 12, volumeLevel = Enc 80,
             animationSpeed = Enc 0, lastCalculated = 200\<rparr>),
          events := events s0 @ [AdjustmentCalculated 5 200]\<rparr>)"
    by (simp add: prefs)
  then have "getAdjustments (transact testVerifier (5, 200, CalculateAdjustments) s0) 5
      = (Enc 20, Enc 12, Enc 80, Enc 0, 200)"
    by (simp add: transact_def getAdjustments_def)
  then show ?thesis
    by (simp only: s0_def)
qed

text \<open>
  Claim C2. When cognitive/10 exceeds 3, \<^verbatim>\<open>calculateAdjustments\<close> still succeeds and does
  not clamp: the stored animationSpeed encrypts (3 - cognitive/10) modulo \<open>2 ^ 32\<close>, which
  is the non-zero number \<open>2 ^ 32 + 3 - cognitive/10\<close>.
\<close>

theorem animationSpeed_underflow_wraps:
  assumes s: "s = run chk txs (constructor t0)"
    and prefs: "hasPreferences s owner"
    and c: "c = cleartext (cognitiveSettings (userPreferences s owner))"
    and big: "3 < unat c div 10"
  shows "\<exists>s'. calculateAdjustments owner now s = Inr s' \<and>
           animationSpeed (uiAdjustments s' owner) = Enc (3 - c div 10) \<and>
           uint (3 - c div 10) = (3 - uint c div 10) mod 2 ^ 32 \<and>
           unat (3 - c div 10) = 2 ^ 32 + 3 - unat c div 10 \<and>
           3 - c div 10 \<noteq> 0"
proof -
  have "defaultAdjustment s =
      \<lparr>fontSize = Enc 16, contrastRatio = Enc 4, volumeLevel = Enc 50,
       animationSpeed = Enc 3, lastCalculated = t0\<rparr>"
    unfolding s by (rule defaultAdjustment_reachable)
  note res = calculateAdjustments_result [OF this prefs, of now]
  have b: "unat c div 10 < 4294967296"
    using unat_bound32 [of c] by simp
  have "unat (3 - c div 10) =
      (if unat (c div 10) \<le> unat (3::32 word) then unat (3::32 word) - unat (c div 10)
       else unat (3::32 word) + 2 ^ size (3::32 word) - unat (c div 10))"
    by (rule unat_sub_if_size)
  then have wrap: "unat (3 - c div 10) = 2 ^ 32 + 3 - unat c div 10"
    using big b by (simp add: unat_div word_size)
  have nz: "3 - c div 10 \<noteq> 0"
  proof
    assume "3 - c div 10 = 0"
    then have "unat (3 - c div 10) = 0" by simp
    with wrap b show False by simp
  qed
  have mod: "uint (3 - c div 10) = (3 - uint c div 10) mod 2 ^ 32"
    by (simp add: uint_word_ariths uint_div)
  show ?thesis
    unfolding res using wrap nz mod by (simp add: c)
qed

theorem animationSpeed_underflow_wraps_witness:
  "animationSpeed (uiAdjustments
     (transact testVerifier (5, 200, CalculateAdjustments)
        (run testVerifier [(5, 100, UpdatePreferences (Enc 40) (Enc 60) (Enc 0) (Enc 45))]
           (constructor 1))) 5)
   = Enc 4294967295"
proof -
  define s0 where
    "s0 = run testVerifier [(5, 100, UpdatePreferences (Enc 40) (Enc 60) (Enc 0) (Enc 45))]
            (constructor 1)"
  have prefs: "userPreferences s0 5 =
      \<lparr>visionSettings = Enc 40, hearingSettings = Enc 60, mobilitySettings = Enc 0,
       cognitiveSettings = Enc 45, lastUpdated = 100\<rparr>"
    by (simp add: s0_def transact_def updatePreferences_def)
  have has: "hasPreferences s0 5"
    by (simp add: hasPreferences_def prefs)
  have big: "3 < unat (cleartext (cognitiveSettings (userPreferences s0 5))) div 10"
    by (simp add: prefs)
  from animationSpeed_underflow_wraps [OF s0_def has refl big, of 200]
  obtain s' where r: "calculateAdjustments 5 200 s0 = Inr s'"
    and a: "animationSpeed (uiAdjustments s' 5) = Enc 4294967295"
    by (auto simp: prefs)
  have "animationSpeed (uiAdjustments
      (transact testVerifier (5, 200, CalculateAdjustments) s0) 5) = Enc 4294967295"
    using r a by (simp add: transact_def)
  then show ?thesis
    by (simp only: s0_def)
qed

subsection \<open>Missing preferences\<close>

text \<open>
  Claim C3. When the owner has no preference record, \<^verbatim>\<open>calculateAdjustments\<close> fails with
  \<open>PreconditionFailed\<close> (the message is "Preferences not set") and the transaction leaves
  the state as it was. The owner has no record, in the sense of the contract's own test,
  after every history from deployment in which the owner has not submitted preferences, or
  has reset them since the last submission.
\<close>

theorem calculateAdjustments_requires_preferences:
  "(\<not> hasPreferences s owner \<longrightarrow>
      calculateAdjustments owner now s = Inl (PreconditionFailed ''Preferences not set'') \<and>
      transact chk (owner, now, CalculateAdjustments) s = s) \<and>
   (\<not> submittedSinceReset owner txs \<longrightarrow> \<not> hasPreferences (run chk txs (constructor t0)) owner)"
proof (intro conjI impI)
  assume "\<not> hasPreferences s owner"
  then show "calculateAdjustments owner now s = Inl (PreconditionFailed ''Preferences not set'')"
    by (rule calculateAdjustments_without_preferences)
  then show "transact chk (owner, now, CalculateAdjustments) s = s"
    by (simp add: transact_def)
next
  assume n: "\<not> submittedSinceReset owner txs"
  show "\<not> hasPreferences (run chk txs (constructor t0)) owner"
  proof
    assume "hasPreferences (run chk txs (constructor t0)) owner"
    then have "submittedAfter owner (hasPreferences (constructor t0) owner) txs"
      by (rule hasPreferences_run)
    with n show False
      by (simp add: submittedSinceReset_def hasPreferences_constructor)
  qed
qed

theorem calculateAdjustments_requires_preferences_witness:
  "calculateAdjustments 7 300
     (run testVerifier
        [(7, 100, UpdatePreferences (Enc 40) (Enc 60) (Enc 0) (Enc 30)),
         (7, 200, ResetPreferences)] (constructor 1))
     = Inl (PreconditionFailed ''Preferences not set'')"
proof -
  let ?txs = "[(7, 100, UpdatePreferences (Enc 40) (Enc 60) (Enc 0) (Enc 30)),
               (7, 200, ResetPreferences)] :: transaction list"
  have n: "\<not> submittedSinceReset 7 ?txs"
    by (simp add: submittedSinceReset_def nextSubmitted_def)
  have "\<not> hasPreferences (run testVerifier ?txs (constructor 1)) 7"
    using calculateAdjustments_requires_preferences
      [where owner = 7 and txs = ?txs and chk = testVerifier and ?t0.0 = 1] n by blast
  then show ?thesis
    using calculateAdjustments_requires_preferences
      [where s = "run testVerifier ?txs (constructor 1)" and owner = 7 and now = 300]
    by blast
qed


subsection \<open>Resetting\<close>

text \<open>
  Claim C4. In every state, \<^verbatim>\<open>resetPreferences\<close> succeeds; afterwards the owner's
  preference record and adjustment record are the zero records, so both are absent; the
  event PreferencesUpdated is appended to the log; the records of the other owners stay;
  when both records were already zero, nothing but the log changes. A \<^verbatim>\<open>calculateAdjustments\<close> of the owner fails with
  \<open>PreconditionFailed\<close> right after the reset, and also after any further transactions
  among which the owner does not submit preferences again.
\<close>

theorem resetPreferences_deletes_records:
  "resetPreferences owner now s =
     Inr (transact chk (owner, now, ResetPreferences) s) \<and>
   userPreferences (transact chk (owner, now, ResetPreferences) s) owner = zeroPreferences \<and>
   uiAdjustments (transact chk (owner, now, ResetPreferences) s) owner = zeroAdjustment \<and>
   \<not> hasPreferences (transact chk (owner, now, ResetPreferences) s) owner \<and>
   \<not> hasAdjustments (transact chk (owner, now, ResetPreferences) s) owner \<and>
   events (transact chk (owner, now, ResetPreferences) s) =
     events s @ [PreferencesUpdated owner now] \<and>
   (userPreferences s owner = zeroPreferences \<and> uiAdjustments s owner = zeroAdjustment \<longrightarrow>
      transact chk (owner, now, ResetPreferences) s =
        s\<lparr>events := events s @ [PreferencesUpdated owner now]\<rparr>) \<and>
   (\<forall>other. other \<noteq> owner \<longrightarrow>
      userPreferences (transact chk (owner, now, ResetPreferences) s) other =
        userPreferences s other \<and>
      uiAdjustments (transact chk (owner, now, ResetPreferences) s) other =
        uiAdjustments s other) \<and>
   calculateAdjustments owner now' (transact chk (owner, now, ResetPreferences) s) =
     Inl (PreconditionFailed ''Preferences not set'') \<and>
   (\<not> submittedSinceReset owner txs \<longrightarrow>
      calculateAdjustments owner now'
        (run chk txs (transact chk (owner, now, ResetPreferences) s)) =
      Inl (PreconditionFailed ''Preferences not set''))"
proof -
  let ?s' = "transact chk (owner, now, ResetPreferences) s"
  have s': "?s' = s\<lparr>userPreferences := (userPreferences s)(owner := zeroPreferences),
                    uiAdjustments := (uiAdjustments s)(owner := zeroAdjustment),
                    events := events s @ [PreferencesUpdated owner now]\<rparr>"
    by (simp add: transact_def resetPreferences_def)
  have np: "\<not> hasPreferences ?s' owner"
    by (simp add: s' hasPreferences_def zeroPreferences_def)
  have later: "\<not> hasPreferences (run chk txs ?s') owner" if n: "\<not> submittedSinceReset owner txs"
  proof
    assume "hasPreferences (run chk txs ?s') owner"
    then have "submittedAfter owner (hasPreferences ?s' owner) txs"
      by (rule hasPreferences_run)
    with n np show False
      by (simp add: submittedSinceReset_def)
  qed
  have noop: "?s' = s\<lparr>events := events s @ [PreferencesUpdated owner now]\<rparr>"
    if "userPreferences s owner = zeroPreferences \<and> uiAdjustments s owner = zeroAdjustment"
  proof -
    from that have "(userPreferences s)(owner := zeroPreferences) = userPreferences s"
      and "(uiAdjustments s)(owner := zeroAdjustment) = uiAdjustments s"
      by auto
    then show ?thesis
      by (simp add: s')
  qed
  show ?thesis
  proof (intro conjI impI allI)
    show "resetPreferences owner now s = Inr ?s'"
      by (simp add: transact_def resetPreferences_def)
    show "userPreferences ?s' owner = zeroPreferences"
      by (simp add: s')
    show "uiAdjustments ?s' owner = zeroAdjustment"
      by (simp add: s')
    show "\<not> hasPreferences ?s' owner"
      by (rule np)
    show "\<not> hasAdjustments ?s' owner"
      by (simp add: s' hasAdjustments_def zeroAdjustment_def)
    show "events ?s' = events s @ [PreferencesUpdated owner now]"
      by (simp add: s')
    show "calculateAdjustments owner now' ?s' = Inl (PreconditionFailed ''Preferences not set'')"
      using np by (rule calculateAdjustments_without_preferences)
  next
    fix other
    assume "other \<noteq> owner"
    then show "userPreferences ?s' other = userPreferences s other"
      and "uiAdjustments ?s' other = uiAdjustments s other"
      by (simp_all add: s')
  next
    assume "userPreferences s owner = zeroPreferences \<and> uiAdjustments s owner = zeroAdjustment"
    then show "?s' = s\<lparr>events := events s @ [PreferencesUpdated owner now]\<rparr>"
      by (rule noop)
  next
    assume "\<not> submittedSinceReset owner txs"
    then have "\<not> hasPreferences (run chk txs ?s') owner"
      by (rule later)
    then show "calculateAdjustments owner now' (run chk txs ?s') =
        Inl (PreconditionFailed ''Preferences not set'')"
      by (rule calculateAdjustments_without_preferences)
  qed
qed

theorem resetPreferences_deletes_records_witness:
  "transact testVerifier (7, 500, ResetPreferences) scenarioState =
     scenarioState\<lparr>events := events scenarioState @ [PreferencesUpdated 7 500]\<rparr> \<and>
   calculateAdjustments 7 700
     (run testVerifier [(5, 600, UpdatePreferences (Enc 1) (Enc 2) (Enc 3) (Enc 4))]
        (transact testVerifier (7, 500, ResetPreferences) scenarioState)) =
     Inl (PreconditionFailed ''Preferences not set'')"
proof -
  have absent: "userPreferences scenarioState 7 = zeroPreferences \<and>
      uiAdjustments scenarioState 7 = zeroAdjustment"
    by (simp add: scenarioState_eq)
  have n: "\<not> submittedSinceReset 7 [(5, 600, UpdatePreferences (Enc 1) (Enc 2) (Enc 3) (Enc 4))]"
    by (simp add: submittedSinceReset_def nextSubmitted_def)
  from absent n show ?thesis
    using resetPreferences_deletes_records
      [where owner = 7 and now = 500 and s = scenarioState and chk = testVerifier
         and now' = 700
         and txs = "[(5, 600, UpdatePreferences (Enc 1) (Enc 2) (Enc 3) (Enc 4))]"]
    by blast
qed

subsection \<open>The decryption callback\<close>

text \<open>
  Claim C5, as amended. When the proof verifies, \<^verbatim>\<open>handleDecryptedAdjustments\<close> decodes
  the cleartexts as four 32-bit integers, fails with \<open>Malformed\<close> when they do not decode,
  and otherwise appends the event UIAdjusted, for the caller, to the log. It stores
  nothing else: the decoded values are dropped, the records of every owner and the
  requests stay as they were.
\<close>

theorem handleDecryptedAdjustments_verified:
  assumes "chk (decryptionRequests s) requestId cleartexts dproof"
  shows "handleDecryptedAdjustments chk sender now requestId cleartexts dproof s =
     (if abi_decode_uint32x4 cleartexts = None then Inl Malformed
      else Inr (s\<lparr>events := events s @ [UIAdjusted sender now]\<rparr>))"
  using assms by (simp add: handleDecryptedAdjustments_cases)

theorem handleDecryptedAdjustments_verified_witness:
  "handleDecryptedAdjustments testVerifier 9 400 0 payloadA [1] scenarioState =
     Inr (scenarioState\<lparr>events := events scenarioState @ [UIAdjusted 9 400]\<rparr>)"
proof -
  have "testVerifier (decryptionRequests scenarioState) 0 payloadA [1]"
    by (simp add: testVerifier_def)
  then show ?thesis
    using handleDecryptedAdjustments_verified
      [where chk = testVerifier and s = scenarioState and requestId = 0
         and cleartexts = payloadA and dproof = "[1]" and sender = 9 and now = 400]
    by (simp add: decode_payloadA)
qed

text \<open>
  The claim as stated fails: the callback with the cleartexts (1, 2, 3, 4) and the one
  with (20, 12, 80, 0) both succeed and leave the same state, in which the record of
  account 5 is what it was before.
\<close>

theorem handleDecryptedAdjustments_stores_nothing:
  "abi_decode_uint32x4 payloadA = Some (20, 12, 80, 0) \<and>
   abi_decode_uint32x4 payloadB = Some (1, 2, 3, 4) \<and>
   handleDecryptedAdjustments testVerifier 9 400 0 payloadA [1] scenarioState =
     Inr (scenarioState\<lparr>events := events scenarioState @ [UIAdjusted 9 400]\<rparr>) \<and>
   handleDecryptedAdjustments testVerifier 9 400 0 payloadB [1] scenarioState =
     handleDecryptedAdjustments testVerifier 9 400 0 payloadA [1] scenarioState \<and>
   getAdjustments
     (transact testVerifier (9, 400, HandleDecryptedAdjustments 0 payloadB [1]) scenarioState) 5
     = (Enc 20, Enc 12, Enc 80, Enc 0, 200)"
  by (simp add: decode_payloadA decode_payloadB handleDecryptedAdjustments_cases
      testVerifier_def transact_def getAdjustments_def)
     (simp add: scenarioState_eq)

text \<open>
  Claim C6, as amended. When the proof does not verify, \<^verbatim>\<open>handleDecryptedAdjustments\<close>
  fails with \<open>InvalidProof\<close> and the transaction leaves the whole state as it was: no
  record changes and no rejection is recorded, so every later call, a callback with the
  same request id included, runs as if the forged callback had not been made.
\<close>

theorem handleDecryptedAdjustments_forged:
  assumes "\<not> chk (decryptionRequests s) requestId cleartexts dproof"
  shows "handleDecryptedAdjustments chk sender now requestId cleartexts dproof s = Inl InvalidProof \<and>
     transact chk (sender, now, HandleDecryptedAdjustments requestId cleartexts dproof) s = s \<and>
     exec chk tx (transact chk (sender, now, HandleDecryptedAdjustments requestId cleartexts dproof) s)
       = exec chk tx s"
  using assms by (simp add: handleDecryptedAdjustments_cases transact_def)

theorem handleDecryptedAdjustments_forged_witness:
  "handleDecryptedAdjustments testVerifier 9 400 0 payloadA [0] scenarioState = Inl InvalidProof \<and>
   transact testVerifier (9, 400, HandleDecryptedAdjustments 0 payloadA [0]) scenarioState
     = scenarioState"
proof -
  have "\<not> testVerifier (decryptionRequests scenarioState) 0 payloadA [0]"
    by (simp add: testVerifier_def)
  then show ?thesis
    using handleDecryptedAdjustments_forged
      [where chk = testVerifier and s = scenarioState and requestId = 0
         and cleartexts = payloadA and dproof = "[0]" and sender = 9 and now = 400]
    by simp
qed

text \<open>
  The claim as stated fails: after a forged callback for request 0, a second forged
  callback for request 0 fails with \<open>InvalidProof\<close> again, and a callback for request 0
  with a proof that verifies succeeds.
\<close>

theorem forged_callback_leaves_request_open:
  "handleDecryptedAdjustments testVerifier 9 400 0 payloadA [0] scenarioState = Inl InvalidProof \<and>
   transact testVerifier (9, 400, HandleDecryptedAdjustments 0 payloadA [0]) scenarioState
     = scenarioState \<and>
   handleDecryptedAdjustments testVerifier 9 401 0 payloadA [0]
     (transact testVerifier (9, 400, HandleDecryptedAdjustments 0 payloadA [0]) scenarioState)
     = Inl InvalidProof \<and>
   handleDecryptedAdjustments testVerifier 9 402 0 payloadA [1]
     (transact testVerifier (9, 400, HandleDecryptedAdjustments 0 payloadA [0]) scenarioState)
     = Inr (scenarioState\<lparr>events := events scenarioState @ [UIAdjusted 9 402]\<rparr>)"
  by (simp add: decode_payloadA handleDecryptedAdjustments_cases testVerifier_def transact_def)

subsection \<open>Adjustments only with preferences\<close>

text \<open>
  Claim C7, as amended. For every owner, a transaction keeps the invariant "adjustments
  are present only if preferences are", unless it is an \<^verbatim>\<open>updatePreferences\<close> with the zero
  handle as vision, sent by this owner while adjustments are present. All the other
  operations, and every other \<^verbatim>\<open>updatePreferences\<close>, preserve the invariant, whether they
  succeed or revert.
\<close>

theorem recordInvariant_preserved:
  assumes "recordInvariant s owner"
    and "\<not> (nullVisionUpdate c \<and> sender = owner \<and> hasAdjustments s owner)"
  shows "recordInvariant (transact chk (sender, now, c) s) owner"
  using assms by (simp add: recordInvariant_transact)

theorem recordInvariant_preserved_witness:
  "recordInvariant
     (transact testVerifier (5, 400, UpdatePreferences (Enc 70) Uninitialized (Enc 0) (Enc 30))
        scenarioState) 5"
proof -
  have inv: "recordInvariant scenarioState 5"
    by (simp add: recordInvariant_def hasPreferences_def hasAdjustments_def scenarioState_eq)
  have ok: "\<not> (nullVisionUpdate (UpdatePreferences (Enc 70) Uninitialized (Enc 0) (Enc 30)) \<and>
      (5::address) = 5 \<and> hasAdjustments scenarioState 5)"
    by simp
  from recordInvariant_preserved [OF inv ok]
  show ?thesis .
qed

text \<open>
  The claim as stated fails: in the scenario state the invariant holds for account 5,
  which then submits preferences whose vision handle is the zero handle. Its adjustments
  stay as they were, while its preferences no longer pass the contract's test, so that
  \<^verbatim>\<open>calculateAdjustments\<close> reverts.
\<close>

theorem null_vision_update_breaks_recordInvariant:
  "recordInvariant scenarioState 5 \<and>
   updatePreferences 5 400 Uninitialized (Enc 60) (Enc 0) (Enc 30) scenarioState =
     Inr (transact testVerifier (5, 400, UpdatePreferences Uninitialized (Enc 60) (Enc 0) (Enc 30))
            scenarioState) \<and>
   hasAdjustments
     (transact testVerifier (5, 400, UpdatePreferences Uninitialized (Enc 60) (Enc 0) (Enc 30))
        scenarioState) 5 \<and>
   \<not> hasPreferences
     (transact testVerifier (5, 400, UpdatePreferences Uninitialized (Enc 60) (Enc 0) (Enc 30))
        scenarioState) 5 \<and>
   \<not> recordInvariant
     (transact testVerifier (5, 400, UpdatePreferences Uninitialized (Enc 60) (Enc 0) (Enc 30))
        scenarioState) 5 \<and>
   calculateAdjustments 5 500
     (transact testVerifier (5, 400, UpdatePreferences Uninitialized (Enc 60) (Enc 0) (Enc 30))
        scenarioState) = Inl (PreconditionFailed ''Preferences not set'') \<and>
   getAdjustments
     (transact testVerifier (5, 400, UpdatePreferences Uninitialized (Enc 60) (Enc 0) (Enc 30))
        scenarioState) 5 = (Enc 20, Enc 12, Enc 80, Enc 0, 200)"
  by (simp add: recordInvariant_def hasPreferences_def hasAdjustments_def scenarioState_eq
      transact_def updatePreferences_def calculateAdjustments_def getAdjustments_def
      zeroAdjustment_def zeroPreferences_def)

subsection \<open>The key index\<close>

text \<open>
  Claim C8, as amended. When the stored index parses to an array, \<^verbatim>\<open>submitPreference\<close>
  appends the new id at its end whether or not the id is already there: the number of
  occurrences of the id grows by one and that of every other key stays. The array after
  the push is free of duplicates exactly when the array before was and did not hold the
  id.
\<close>

theorem pushKey_appends_unconditionally:
  assumes "indexKeys jsonParse keysBytes = JArray keys"
  shows "pushKey jsonParse keysBytes prefId = Inr (keys @ [JString prefId]) \<and>
     count_list (keys @ [JString prefId]) (JString k) =
       count_list keys (JString k) + (if k = prefId then 1 else 0) \<and>
     distinct (keys @ [JString prefId]) = (distinct keys \<and> JString prefId \<notin> set keys)"
  using assms by (auto simp: pushKey_def)

theorem pushKey_appends_unconditionally_witness:
  "pushKey blobParse indexBlob ''k2'' = Inr [JString ''k1'', JString ''k2''] \<and>
   distinct [JString ''k1'', JString ''k2'']"
proof -
  have "indexKeys blobParse indexBlob = JArray [JString ''k1'']"
    by (simp add: indexKeys_def blobParse_def indexBlob_def)
  from pushKey_appends_unconditionally [OF this, of "''k2''" "''k2''"]
  show ?thesis by simp
qed

text \<open>
  The claim as stated fails: registering \<^verbatim>\<open>k1\<close> in the empty index gives \<^verbatim>\<open>["k1"]\<close>, and
  registering it again in the index \<^verbatim>\<open>["k1"]\<close> gives \<^verbatim>\<open>["k1", "k1"]\<close>.
\<close>

theorem pushKey_duplicates_key:
  "pushKey blobParse [] ''k1'' = Inr [JString ''k1''] \<and>
   indexKeys blobParse indexBlob = JArray [JString ''k1''] \<and>
   pushKey blobParse indexBlob ''k1'' = Inr [JString ''k1'', JString ''k1''] \<and>
   count_list [JString ''k1'', JString ''k1''] (JString ''k1'') = 2"
  by (simp add: pushKey_def indexKeys_def blobParse_def indexBlob_def)

subsection \<open>Reading what was never written\<close>

text \<open>
  Claim C9, as amended. \<^verbatim>\<open>getAdjustments\<close> never fails. After every history from
  deployment in which the user has not called \<^verbatim>\<open>calculateAdjustments\<close>, it returns the
  default record: four zero handles and the time 0. Likewise the frontend reads an empty
  index blob as the empty list of keys.
\<close>

theorem getAdjustments_never_written:
  assumes "neverCalculated user txs"
  shows "getAdjustments (run chk txs (constructor t0)) user =
     (Uninitialized, Uninitialized, Uninitialized, Uninitialized, 0) \<and>
     indexKeys jsonParse [] = JArray []"
proof -
  have "uiAdjustments (constructor t0) user = zeroAdjustment"
    by (simp add: constructor_def freshStorage_def)
  with assms have "uiAdjustments (run chk txs (constructor t0)) user = zeroAdjustment"
    by (rule uiAdjustments_run_neverCalculated)
  then show ?thesis
    by (simp add: getAdjustments_def zeroAdjustment_def indexKeys_def)
qed

theorem getAdjustments_never_written_witness:
  "getAdjustments
     (run testVerifier
        [(5, 100, UpdatePreferences (Enc 40) (Enc 60) (Enc 0) (Enc 30)),
         (5, 200, CalculateAdjustments),
         (7, 300, ApplyUIAdjustments)] (constructor 1)) 7 =
     (Uninitialized, Uninitialized, Uninitialized, Uninitialized, 0)"
proof -
  have "neverCalculated 7
     [(5, 100, UpdatePreferences (Enc 40) (Enc 60) (Enc 0) (Enc 30)),
      (5, 200, CalculateAdjustments),
      (7, 300, ApplyUIAdjustments)]"
    by simp
  from getAdjustments_never_written [OF this]
  show ?thesis by blast
qed

text \<open>
  The claim as stated fails: for account 7, which never wrote anything, \<^verbatim>\<open>getAdjustments\<close>
  returns the default record, right after deployment and in the scenario state.
\<close>

theorem getAdjustments_returns_default:
  "getAdjustments (constructor 1) 7 =
     (Uninitialized, Uninitialized, Uninitialized, Uninitialized, 0) \<and>
   getAdjustments scenarioState 7 =
     (Uninitialized, Uninitialized, Uninitialized, Uninitialized, 0) \<and>
   indexKeys blobParse [] = JArray []"
  by (simp add: getAdjustments_def scenarioState_eq constructor_def freshStorage_def
      zeroAdjustment_def indexKeys_def)

subsection \<open>Mobility\<close>

text \<open>
  Claim C10. Two states that differ only in the owner's mobility setting give the same
  outcome of \<^verbatim>\<open>calculateAdjustments\<close>: the same failure, or the same table of adjustment
  records.
\<close>

theorem adjustments_independent_of_mobility:
  "map_sum id uiAdjustments
     (calculateAdjustments owner now
        (s\<lparr>userPreferences := (userPreferences s)(owner := p\<lparr>mobilitySettings := m1\<rparr>)\<rparr>)) =
   map_sum id uiAdjustments
     (calculateAdjustments owner now
        (s\<lparr>userPreferences := (userPreferences s)(owner := p\<lparr>mobilitySettings := m2\<rparr>)\<rparr>))"
  by (simp add: calculateAdjustments_def Let_def)

end
